theory Spec2Isabelle
  imports
    Main
    "HOL-Library.Char_ord"
    "HOL-Library.List_Lexorder"
    "HOL-Library.Product_Lexorder"
begin

section \<open>Data model\<close>

text \<open>
  The development embeds the two logic functions of \<^verbatim>\<open>travel_day_calc_v1_1.py\<close>,
  \<^verbatim>\<open>calculate_gaps\<close> and \<^verbatim>\<open>apply_user_logic\<close>, with their nested helpers.

  A calendar date (a pandas Timestamp without time of day) is the number of days since
  1970-01-01, an \<open>int\<close>; subtracting two dates and taking \<^verbatim>\<open>.days\<close> is the difference
  of the two numbers. Text is \<open>string\<close>, read as UTF-8 bytes. A DataFrame is the list of
  its rows in index order, each row a record of the columns the code reads.

  Three library functions are parameters of the model, collected in a record:
  \<^verbatim>\<open>str.lower\<close>, \<^verbatim>\<open>pd.to_datetime\<close> on a string (it returns a date, returns NaT, or
  raises) and \<^verbatim>\<open>strftime('%d.%m.%Y')\<close>. Every general theorem below holds for all of
  them. The operations of pandas on frames (\<^verbatim>\<open>groupby\<close>, \<^verbatim>\<open>shift\<close>, \<^verbatim>\<open>diff\<close>,
  \<^verbatim>\<open>cumsum\<close>, \<^verbatim>\<open>sort_values\<close>, \<^verbatim>\<open>date_range\<close>) are modelled with their documented
  defaults, as of pandas 2.
\<close>

datatype parsed = Parsed int | ParsedNaT | ParseException

record library =
  lower :: "string \<Rightarrow> string"
  to_datetime :: "string \<Rightarrow> parsed"
  strftime :: "int \<Rightarrow> string"

text \<open>Rows of the schedule frame: the columns \<^verbatim>\<open>'Cast Member'\<close> and \<^verbatim>\<open>'Shooting Date'\<close>.\<close>

record shooting_record =
  Cast_Member :: string
  Shooting_Date :: int

text \<open>
  The frame returned by \<^verbatim>\<open>calculate_gaps\<close> has three more columns. A missing previous
  date (NaN) is \<open>None\<close>. This is the frame the application passes on to
  \<^verbatim>\<open>apply_user_logic\<close>, which reads the first two columns only.
\<close>

record gap_record = shooting_record +
  Previous_Shooting_Date :: "int option"
  Gap :: int
  Weekends_in_Gap :: nat

text \<open>
  A shooting period definition is a dict with the keys \<^verbatim>\<open>'Name'\<close>, \<^verbatim>\<open>'Location'\<close>,
  \<^verbatim>\<open>'Start Date'\<close> and \<^verbatim>\<open>'End Date'\<close>. A date cell holds a Timestamp, NaT, or a string
  still to be parsed (\<^verbatim>\<open>get_period_info\<close> tests \<^verbatim>\<open>isinstance(..., str)\<close>).
\<close>

datatype date_cell = Timestamp int | NaT | Str string

record shooting_period =
  Name :: string
  Location :: string
  Start_Date :: date_cell
  End_Date :: date_cell

text \<open>
  One entry of \<^verbatim>\<open>cast_member_settings\<close>, with the keys \<^verbatim>\<open>'include'\<close> and
  \<^verbatim>\<open>'home_location'\<close>; the dict itself is a map from names.
\<close>

record cast_setting =
  cs_include :: bool
  cs_home_location :: string

section \<open>The gap annotator: \<^verbatim>\<open>calculate_gaps\<close>\<close>

text \<open>
  \<^verbatim>\<open>pd.date_range(start, end)\<close> with the default daily frequency: every date from
  \<open>start\<close> to \<open>end\<close>, both included, none when \<open>end < start\<close>.
\<close>

definition date_range :: "int \<Rightarrow> int \<Rightarrow> int list" where
  "date_range start end = [start..end]"

text \<open>
  \<^verbatim>\<open>weekday\<close>: Monday is 0 and Sunday is 6; day 0 (1970-01-01) was a Thursday.
\<close>

definition weekday :: "int \<Rightarrow> int" where
  "weekday d = (d + 3) mod 7"

text \<open>
  \<^verbatim>\<open>groupby('Cast Member')['Shooting Date'].shift(1)\<close>: for each row, the date of the
  nearest earlier row of the same cast member, in the frame's row order. The first
  argument maps each member to the date of the last row seen.
\<close>

fun shift_by_member ::
  "(string \<rightharpoonup> int) \<Rightarrow> 'a shooting_record_scheme list \<Rightarrow> int option list" where
  "shift_by_member seen [] = []"
| "shift_by_member seen (r # rs) =
     seen (Cast_Member r) # shift_by_member (seen(Cast_Member r \<mapsto> Shooting_Date r)) rs"

text \<open>
  \<^verbatim>\<open>(date - previous).dt.days - 1\<close>, then \<^verbatim>\<open>fillna(0).astype(int)\<close>: only the missing
  value is replaced.
\<close>

definition gap_since :: "int \<Rightarrow> int option \<Rightarrow> int" where
  "gap_since date previous = (case previous of None \<Rightarrow> 0 | Some p \<Rightarrow> date - p - 1)"

definition weekends_in_gap :: "int \<Rightarrow> int option \<Rightarrow> int \<Rightarrow> nat" where
  "weekends_in_gap date previous gap =
     (case previous of
        None \<Rightarrow> 0
      | Some p \<Rightarrow>
          if gap \<le> 0 then 0
          else length (filter (\<lambda>d. weekday d \<ge> 5) (date_range (p + 1) (date - 1))))"

definition annotate_gap :: "'a shooting_record_scheme \<Rightarrow> int option \<Rightarrow> gap_record" where
  "annotate_gap r previous =
     (let gap = gap_since (Shooting_Date r) previous
      in \<lparr> Cast_Member = Cast_Member r,
           Shooting_Date = Shooting_Date r,
           Previous_Shooting_Date = previous,
           Gap = gap,
           Weekends_in_Gap = weekends_in_gap (Shooting_Date r) previous gap \<rparr>)"

definition calculate_gaps :: "'a shooting_record_scheme list \<Rightarrow> gap_record list" where
  "calculate_gaps df_cast_dates =
     map2 annotate_gap df_cast_dates (shift_by_member Map.empty df_cast_dates)"

section \<open>Period and location of a date: \<^verbatim>\<open>get_period_info\<close>\<close>

text \<open>
  The two \<^verbatim>\<open>isinstance(..., str)\<close> blocks: a string is parsed; when the parse raises or
  gives NaT the loop continues with the next period (\<open>None\<close> here). The code stores a
  parsed value back into the dict; a later call then finds the value the parse would
  give again, so the result of \<^verbatim>\<open>get_period_info\<close> is a function of the definitions.
\<close>

definition ensure_timestamp :: "library \<Rightarrow> date_cell \<Rightarrow> date_cell option" where
  "ensure_timestamp lib cell =
     (case cell of
        Str s \<Rightarrow>
          (case to_datetime lib s of
             Parsed t \<Rightarrow> Some (Timestamp t)
           | ParsedNaT \<Rightarrow> None
           | ParseException \<Rightarrow> None)
      | _ \<Rightarrow> Some cell)"

text \<open>\<^verbatim>\<open>start <= date <= end\<close>; a comparison with NaT is false.\<close>

definition between :: "date_cell \<Rightarrow> int \<Rightarrow> date_cell \<Rightarrow> bool" where
  "between start date end =
     (case (start, end) of
        (Timestamp s, Timestamp e) \<Rightarrow> s \<le> date \<and> date \<le> e
      | _ \<Rightarrow> False)"

fun get_period_info ::
  "library \<Rightarrow> shooting_period list \<Rightarrow> int \<Rightarrow> string option \<times> string option" where
  "get_period_info lib [] date = (None, None)"
| "get_period_info lib (period # rest) date =
     (case ensure_timestamp lib (Start_Date period) of
        None \<Rightarrow> get_period_info lib rest date
      | Some start \<Rightarrow>
          (case ensure_timestamp lib (End_Date period) of
             None \<Rightarrow> get_period_info lib rest date
           | Some end \<Rightarrow>
               if between start date end
               then (Some (Name period), Some (Location period))
               else get_period_info lib rest date))"

section \<open>Travel logic: \<^verbatim>\<open>apply_user_logic\<close>\<close>

subsection \<open>The filtered frame\<close>

text \<open>
  \<^verbatim>\<open>df_filtered\<close> gains the columns \<^verbatim>\<open>'Period Name'\<close>, \<^verbatim>\<open>'Shooting Location'\<close>,
  \<^verbatim>\<open>'Home Location'\<close> and \<^verbatim>\<open>'Include'\<close>, and then \<^verbatim>\<open>'Requires Travel'\<close>. A cell
  holding Python's \<^verbatim>\<open>None\<close> is \<open>None\<close>.
\<close>

record located_row = shooting_record +
  Period_Name :: "string option"
  Shooting_Location :: "string option"
  Home_Location :: string
  Include :: bool

record travel_row = located_row +
  Requires_Travel :: bool

text \<open>The exceptions the function can raise.\<close>

datatype error = ValueError | KeyError | UnboundLocalError

text \<open>
  Lines 297 to 305 for one row: the pair returned by \<^verbatim>\<open>get_period_info\<close> fills the two
  new columns, and the settings of the cast member fill \<^verbatim>\<open>'Home Location'\<close> and
  \<^verbatim>\<open>'Include'\<close>.
\<close>

definition locate ::
  "library \<Rightarrow> (string \<rightharpoonup> cast_setting) \<Rightarrow> shooting_period list \<Rightarrow>
   'a shooting_record_scheme \<Rightarrow> error + located_row" where
  "locate lib cast_member_settings shooting_periods r =
     (let (period_name, shooting_location) =
            get_period_info lib shooting_periods (Shooting_Date r)
      in case cast_member_settings (Cast_Member r) of
           None \<Rightarrow> Inl KeyError
         | Some setting \<Rightarrow>
             Inr \<lparr> Cast_Member = Cast_Member r,
                   Shooting_Date = Shooting_Date r,
                   Period_Name = period_name,
                   Shooting_Location = shooting_location,
                   Home_Location = cs_home_location setting,
                   Include = cs_include setting \<rparr>)"

text \<open>
  The nested function \<^verbatim>\<open>requires_travel(row)\<close>, and the column it fills. (Inside the
  loop the code reuses the name for the group's key; the model calls that variable
  \<open>requires_travel'\<close>.)
\<close>

definition requires_travel :: "library \<Rightarrow> 'a located_row_scheme \<Rightarrow> bool" where
  "requires_travel lib row =
     (case Shooting_Location row of
        None \<Rightarrow> False
      | Some shooting_location \<Rightarrow>
          if lower lib (Home_Location row) = lower lib shooting_location then False
          else True)"

definition with_requires_travel :: "library \<Rightarrow> located_row \<Rightarrow> travel_row" where
  "with_requires_travel lib row =
     \<lparr> Cast_Member = Cast_Member row,
       Shooting_Date = Shooting_Date row,
       Period_Name = Period_Name row,
       Shooting_Location = Shooting_Location row,
       Home_Location = Home_Location row,
       Include = Include row,
       Requires_Travel = requires_travel lib row \<rparr>"

text \<open>Running a fallible function over a list stops at the first error, as a raise does.\<close>

fun map_err :: "('a \<Rightarrow> error + 'b) \<Rightarrow> 'a list \<Rightarrow> error + 'b list" where
  "map_err f [] = Inr []"
| "map_err f (x # xs) =
     (case f x of
        Inl e \<Rightarrow> Inl e
      | Inr y \<Rightarrow> (case map_err f xs of Inl e \<Rightarrow> Inl e | Inr ys \<Rightarrow> Inr (y # ys)))"

fun for_each :: "('a \<Rightarrow> 's \<Rightarrow> error + 's) \<Rightarrow> 'a list \<Rightarrow> 's \<Rightarrow> error + 's" where
  "for_each body [] s = Inr s"
| "for_each body (x # xs) s =
     (case body x s of Inl e \<Rightarrow> Inl e | Inr s' \<Rightarrow> for_each body xs s')"

subsection \<open>Grouping\<close>

text \<open>
  \<^verbatim>\<open>DataFrame.groupby(columns)\<close> with its defaults \<^verbatim>\<open>sort=True\<close> and \<^verbatim>\<open>dropna=True\<close>:
  the groups come in ascending order of their key, each group keeps the frame's row
  order, and a row with a missing value in a key column belongs to no group. The key
  function gives \<open>None\<close> for such a row.
\<close>

definition groupby :: "('r \<Rightarrow> 'k::linorder option) \<Rightarrow> 'r list \<Rightarrow> ('k \<times> 'r list) list" where
  "groupby key df =
     map (\<lambda>k. (k, filter (\<lambda>r. key r = Some k) df)) (sort (remdups (List.map_filter key df)))"

text \<open>
  The key columns \<^verbatim>\<open>['Cast Member', 'Home Location', 'Period Name', 'Requires Travel']\<close>.
  Only \<^verbatim>\<open>'Period Name'\<close> can hold a missing value.
\<close>

definition grouping_columns :: "travel_row \<Rightarrow> (string \<times> string \<times> string \<times> bool) option" where
  "grouping_columns row =
     (case Period_Name row of
        None \<Rightarrow> None
      | Some period_name \<Rightarrow>
          Some (Cast_Member row, Home_Location row, period_name, Requires_Travel row))"

text \<open>
  \<^verbatim>\<open>group['Shooting Date'].diff().dt.days - 1\<close>, then \<^verbatim>\<open>fillna(0).astype(int)\<close>: the first
  row has no predecessor and gets 0.
\<close>

fun gaps_after :: "int \<Rightarrow> int list \<Rightarrow> int list" where
  "gaps_after previous [] = []"
| "gaps_after previous (date # dates) = (date - previous - 1) # gaps_after date dates"

definition local_gaps :: "int list \<Rightarrow> int list" where
  "local_gaps dates = (case dates of [] \<Rightarrow> [] | date # rest \<Rightarrow> 0 # gaps_after date rest)"

text \<open>\<^verbatim>\<open>cumsum()\<close> of a boolean column, \<open>True\<close> counting 1.\<close>

fun cumsum :: "nat \<Rightarrow> bool list \<Rightarrow> nat list" where
  "cumsum running [] = []"
| "cumsum running (b # bs) =
     (let running' = running + (if b then 1 else 0) in running' # cumsum running' bs)"

definition new_period :: "int \<Rightarrow> int list \<Rightarrow> nat list" where
  "new_period max_gap dates = cumsum 0 (map (\<lambda>gap. gap \<ge> max_gap) (local_gaps dates))"

text \<open>
  \<^verbatim>\<open>group.groupby('New Period')\<close>: the stay periods of a group, each with its period
  number and its shooting dates. The argument is the group's date column after
  \<^verbatim>\<open>sort_values('Shooting Date')\<close>.
\<close>

definition periods :: "int \<Rightarrow> int list \<Rightarrow> (nat \<times> int list) list" where
  "periods max_gap dates =
     map (\<lambda>(period_number, period_group). (period_number, map fst period_group))
       (groupby (\<lambda>row. Some (snd row)) (zip dates (new_period max_gap dates)))"

subsection \<open>Output records\<close>

text \<open>
  The dicts appended to \<^verbatim>\<open>results\<close>, \<^verbatim>\<open>export_data\<close> and \<^verbatim>\<open>calendar_data\<close>, one field
  per key; a prefix is added where two dicts share a key.
\<close>

record summary_row =
  S_Cast_Member :: string
  S_Home_Location :: string
  Travel_Days :: nat
  Accommodation_Nights :: int
  S_Requires_Travel :: bool

record export_record =
  E_Cast_Member :: string
  E_Home_Location :: string
  E_Period_Name :: string
  Period_Number :: nat
  Period_Dates :: string
  Period_Start_Date :: int
  Period_End_Date :: int
  Period_Travel_Days :: nat
  Period_Accommodation_Nights :: int
  Number_of_Shooting_Days :: nat
  Number_of_Gap_Days :: nat
  Number_of_Travel_Days :: nat
  Shooting_Dates :: "int list"
  X :: nat
  X4 :: nat
  E_Requires_Travel :: bool

record calendar_event =
  C_Cast_Member :: string
  Title :: string
  Start :: string
  End :: string
  Description :: string
  C_Location :: string
  AllDay :: string

text \<open>
  The four calendar dict literals differ in title, day, description and location only;
  \<^verbatim>\<open>'Start'\<close> and \<^verbatim>\<open>'End'\<close> are both the formatted day.
\<close>

definition calendar_entry ::
  "library \<Rightarrow> string \<Rightarrow> string \<Rightarrow> int \<Rightarrow> string \<Rightarrow> string \<Rightarrow> calendar_event" where
  "calendar_entry lib name title day description location =
     \<lparr> C_Cast_Member = name,
       Title = title,
       Start = strftime lib day,
       End = strftime lib day,
       Description = description,
       C_Location = location,
       AllDay = ''TRUE'' \<rparr>"

definition shooting_events :: "library \<Rightarrow> string \<Rightarrow> string \<Rightarrow> int list \<Rightarrow> calendar_event list" where
  "shooting_events lib name period_name shooting_dates =
     map (\<lambda>shooting_date.
            calendar_entry lib name (''Shooting in '' @ period_name) shooting_date
              (''Shooting day in '' @ period_name) period_name)
       shooting_dates"

definition gap_events :: "library \<Rightarrow> string \<Rightarrow> string \<Rightarrow> int list \<Rightarrow> calendar_event list" where
  "gap_events lib name period_name gap_dates =
     map (\<lambda>gap_date.
            calendar_entry lib name (''Gap Day in '' @ period_name) gap_date
              (''Gap day in '' @ period_name) period_name)
       gap_dates"

text \<open>The en dash of the f-strings, in UTF-8.\<close>

definition en_dash :: string where
  "en_dash = [CHR 0xE2, CHR 0x80, CHR 0x93]"

subsection \<open>One stay period\<close>

text \<open>
  Lines 349 to 366: the arrival date, the departure date and the set \<^verbatim>\<open>travel_dates\<close>
  (a list without repetition here; only its length is read). The two options are
  compared with string literals and neither \<^verbatim>\<open>if\<close>/\<^verbatim>\<open>elif\<close> chain has an
  \<^verbatim>\<open>else\<close>: with any other option string the name \<^verbatim>\<open>arrival_date\<close> or
  \<^verbatim>\<open>departure_date\<close> is never bound during the call, and its first use (the comparison
  on line 365 or the subtraction on line 372) raises.
\<close>

definition travel_plan :: "string \<Rightarrow> string \<Rightarrow> int list \<Rightarrow> error + (int \<times> int \<times> int list)" where
  "travel_plan arrival_option departure_option shooting_dates =
     (let travel_dates = [];
          (arrival_date, travel_dates) =
            (if arrival_option = ''Day Before Shooting'' then
               (let a = Min (set shooting_dates) - 1 in (Some a, List.insert a travel_dates))
             else if arrival_option = ''Same Day as Shooting'' then
               (let a = Min (set shooting_dates) in (Some a, List.insert a travel_dates))
             else (None, travel_dates))
      in if departure_option = ''Day After Shooting'' then
           (let departure_date = Max (set shooting_dates) + 1;
                travel_dates = List.insert departure_date travel_dates
            in case arrival_date of
                 None \<Rightarrow> Inl UnboundLocalError
               | Some a \<Rightarrow> Inr (a, departure_date, travel_dates))
         else if departure_option = ''Same Day as Shooting'' then
           (let departure_date = Max (set shooting_dates)
            in case arrival_date of
                 None \<Rightarrow> Inl UnboundLocalError
               | Some a \<Rightarrow>
                   Inr (a, departure_date,
                        if departure_date \<noteq> a then List.insert departure_date travel_dates
                        else travel_dates))
         else Inl UnboundLocalError)"

text \<open>
  The local variables that survive a loop iteration. The list \<^verbatim>\<open>summary\<close> is only
  written to the log and is left out, and so is the string \<^verbatim>\<open>description\<close>, which is
  computed and never stored.
\<close>

record state =
  total_accommodation :: int
  total_travel :: nat
  results :: "summary_row list"
  export_data :: "export_record list"
  calendar_data :: "calendar_event list"

definition process_period ::
  "library \<Rightarrow> bool \<Rightarrow> string \<Rightarrow> string \<Rightarrow> string \<Rightarrow> string \<Rightarrow> string \<Rightarrow> bool \<Rightarrow>
   nat \<times> int list \<Rightarrow> state \<Rightarrow> error + state" where
  "process_period lib weekend_policy arrival_option departure_option
       name home_location period_name requires_travel' period st =
     (let (period_number, shooting_dates) = period;
          period_length = length shooting_dates
      in if requires_travel' then
           (case travel_plan arrival_option departure_option shooting_dates of
              Inl e \<Rightarrow> Inl e
            | Inr (arrival_date, departure_date, travel_dates) \<Rightarrow>
                (let period_travel = length travel_dates;
                     period_accommodation = departure_date - arrival_date;
                     full_date_range = date_range (arrival_date + 1) (departure_date - 1);
                     gap_dates = filter (\<lambda>date. date \<notin> set shooting_dates) full_date_range;
                     gap_days = length gap_dates;
                     pass = (if weekend_policy then () else ());
                     period_start_date = arrival_date;
                     period_end_date = departure_date
                 in Inr (st
                      \<lparr> total_accommodation := total_accommodation st + period_accommodation,
                        total_travel := total_travel st + period_travel,
                        export_data := export_data st @
                          [\<lparr> E_Cast_Member = name,
                             E_Home_Location = home_location,
                             E_Period_Name = (if period_name \<noteq> [] then period_name else ''Local''),
                             Period_Number = period_number,
                             Period_Dates =
                               strftime lib period_start_date @ en_dash @
                               strftime lib period_end_date,
                             Period_Start_Date = period_start_date,
                             Period_End_Date = departure_date,
                             Period_Travel_Days = period_travel,
                             Period_Accommodation_Nights = period_accommodation,
                             Number_of_Shooting_Days = period_length,
                             Number_of_Gap_Days = gap_days,
                             Number_of_Travel_Days = period_travel,
                             Shooting_Dates = shooting_dates,
                             X = 1,
                             X4 = 1,
                             E_Requires_Travel = requires_travel' \<rparr>],
                        calendar_data := calendar_data st @
                          [calendar_entry lib name (''Travel to '' @ period_name) arrival_date
                             (''Travel from '' @ home_location @ '' to '' @ period_name)
                             period_name] @
                          shooting_events lib name period_name shooting_dates @
                          gap_events lib name period_name gap_dates @
                          [calendar_entry lib name (''Travel back to '' @ home_location)
                             departure_date
                             (''Travel from '' @ period_name @ '' to '' @ home_location)
                             home_location] \<rparr>)))
         else
           (let full_date_range =
                  date_range (Min (set shooting_dates)) (Max (set shooting_dates));
                gap_dates = filter (\<lambda>date. date \<notin> set shooting_dates) full_date_range
            in Inr (st
                 \<lparr> calendar_data := calendar_data st @
                     shooting_events lib name period_name shooting_dates @
                     gap_events lib name period_name gap_dates \<rparr>)))"

subsection \<open>One group and the whole pass\<close>

text \<open>
  The body of the loop over \<^verbatim>\<open>df_filtered.groupby(grouping_columns)\<close>: the group is
  sorted by date, split into stay periods, each period is processed, and one summary
  row is appended for the group.
\<close>

definition process_group ::
  "library \<Rightarrow> int \<Rightarrow> bool \<Rightarrow> string \<Rightarrow> string \<Rightarrow>
   (string \<times> string \<times> string \<times> bool) \<times> travel_row list \<Rightarrow> state \<Rightarrow> error + state" where
  "process_group lib max_gap weekend_policy arrival_option departure_option entry st =
     (let (group_keys, group) = entry;
          (name, home_location, period_name, requires_travel') = group_keys;
          dates = sort (map Shooting_Date group);
          st = st \<lparr> total_accommodation := 0, total_travel := 0 \<rparr>
      in case for_each
                (process_period lib weekend_policy arrival_option departure_option
                   name home_location period_name requires_travel')
                (periods max_gap dates) st of
           Inl e \<Rightarrow> Inl e
         | Inr st \<Rightarrow>
             Inr (st \<lparr> results := results st @
                    [\<lparr> S_Cast_Member = name,
                       S_Home_Location = home_location,
                       Travel_Days = total_travel st,
                       Accommodation_Nights = total_accommodation st,
                       S_Requires_Travel = requires_travel' \<rparr>] \<rparr>))"

text \<open>
  The whole function. It returns the rows of \<^verbatim>\<open>df_summary\<close>, \<^verbatim>\<open>export_data\<close> and
  \<^verbatim>\<open>calendar_data\<close>, or the exception it raises.

  When no row of the schedule belongs to a cast member of the settings,
  \<^verbatim>\<open>df_filtered['Shooting Date'].apply(...)\<close> is an empty Series and not a frame of two
  columns, and assigning it to the two columns \<^verbatim>\<open>['Period Name', 'Shooting Location']\<close>
  raises \<^verbatim>\<open>ValueError\<close> (``Columns must be same length as key'', pandas 1.3 and later).
  The lookup \<^verbatim>\<open>cast_member_settings[name]\<close> cannot fail after the \<^verbatim>\<open>isin\<close> filter; the
  model keeps the branch. When rows remain but every one of them is excluded, the frame
  is empty from line 308 on, \<^verbatim>\<open>apply(requires_travel, axis=1)\<close> gives an empty column
  and the loop over the groups runs zero times.
\<close>

definition apply_user_logic ::
  "library \<Rightarrow> 'a shooting_record_scheme list \<Rightarrow> int \<Rightarrow> bool \<Rightarrow> string \<Rightarrow> string \<Rightarrow>
   (string \<rightharpoonup> cast_setting) \<Rightarrow> shooting_period list \<Rightarrow>
   error + (summary_row list \<times> export_record list \<times> calendar_event list)" where
  "apply_user_logic lib df_cast_dates max_gap weekend_policy arrival_option departure_option
       cast_member_settings shooting_periods =
     (let df_filtered =
            filter (\<lambda>r. cast_member_settings (Cast_Member r) \<noteq> None) df_cast_dates;
          df_filtered = sort_key (\<lambda>r. (Cast_Member r, Shooting_Date r)) df_filtered
      in if df_filtered = [] then Inl ValueError
         else
           (case map_err (locate lib cast_member_settings shooting_periods) df_filtered of
              Inl e \<Rightarrow> Inl e
            | Inr df_filtered \<Rightarrow>
                (let df_filtered = filter Include df_filtered;
                     df_filtered = map (with_requires_travel lib) df_filtered
                 in case for_each
                           (process_group lib max_gap weekend_policy arrival_option
                              departure_option)
                           (groupby grouping_columns df_filtered)
                           \<lparr> total_accommodation = 0, total_travel = 0, results = [],
                             export_data = [], calendar_data = [] \<rparr> of
                      Inl e \<Rightarrow> Inl e
                    | Inr st \<Rightarrow> Inr (results st, export_data st, calendar_data st))))"

section \<open>Notions of the specification\<close>

text \<open>
  The three definitions of this section follow the words of the specification, not the
  code; the theorems on \<^verbatim>\<open>get_period_info\<close> and on the stay periods compare the code
  with them.
\<close>

text \<open>
  The date a cell of a period definition denotes: a Timestamp denotes itself, a string
  the date it parses to, and NaT or an unparsable string no date.
\<close>

definition date_of_cell :: "library \<Rightarrow> date_cell \<Rightarrow> int option" where
  "date_of_cell lib cell =
     (case cell of
        Timestamp t \<Rightarrow> Some t
      | NaT \<Rightarrow> None
      | Str s \<Rightarrow> (case to_datetime lib s of Parsed t \<Rightarrow> Some t | _ \<Rightarrow> None))"

text \<open>The inclusive range of a definition contains a date.\<close>

definition contains_date :: "library \<Rightarrow> shooting_period \<Rightarrow> int \<Rightarrow> bool" where
  "contains_date lib period date =
     (case (date_of_cell lib (Start_Date period), date_of_cell lib (End_Date period)) of
        (Some s, Some e) \<Rightarrow> s \<le> date \<and> date \<le> e
      | _ \<Rightarrow> False)"

text \<open>
  The stay periods as the specification describes them: the dates of a group are cut
  before every date whose distance to its predecessor, minus one, reaches the threshold.
\<close>

fun stay_periods :: "int \<Rightarrow> int list \<Rightarrow> int list list" where
  "stay_periods max_gap [] = []"
| "stay_periods max_gap [d] = [[d]]"
| "stay_periods max_gap (d # e # ds) =
     (if e - d - 1 \<ge> max_gap then [d] # stay_periods max_gap (e # ds)
      else (case stay_periods max_gap (e # ds) of
              [] \<Rightarrow> [[d]]
            | run # runs \<Rightarrow> (d # run) # runs))"

section \<open>A library instance for evaluation\<close>

text \<open>
  Concrete inputs are evaluated with this instance: lower-casing of ASCII letters, the
  rendering \<^verbatim>\<open>%d.%m.%Y\<close> of a day number (proleptic Gregorian calendar, years 1000 to
  9999), and a parser that is never called, since the period definitions of the
  examples hold Timestamps.
\<close>

definition ascii_lower :: "char \<Rightarrow> char" where
  "ascii_lower c =
     (case map_of (zip ''ABCDEFGHIJKLMNOPQRSTUVWXYZ'' ''abcdefghijklmnopqrstuvwxyz'') c of
        None \<Rightarrow> c
      | Some l \<Rightarrow> l)"

definition digit :: "int \<Rightarrow> char" where
  "digit n = ''0123456789'' ! nat n"

definition two_digits :: "int \<Rightarrow> string" where
  "two_digits n = [digit (n div 10 mod 10), digit (n mod 10)]"

definition four_digits :: "int \<Rightarrow> string" where
  "four_digits n = two_digits (n div 100) @ two_digits n"

definition year_of_era :: "int \<Rightarrow> int" where
  "year_of_era doe = (doe - doe div 1460 + doe div 36524 - doe div 146096) div 365"

definition day_of_year :: "int \<Rightarrow> int \<Rightarrow> int" where
  "day_of_year doe yoe = doe - (365 * yoe + yoe div 4 - yoe div 100)"

definition civil :: "int \<Rightarrow> int \<Rightarrow> int \<Rightarrow> int \<Rightarrow> int \<times> int \<times> int" where
  "civil era yoe doy mp =
     (if mp < 10 then (yoe + era * 400, mp + 3, doy - (153 * mp + 2) div 5 + 1)
      else (yoe + era * 400 + 1, mp - 9, doy - (153 * mp + 2) div 5 + 1))"

definition civil_of_era_day :: "int \<Rightarrow> int \<Rightarrow> int \<times> int \<times> int" where
  "civil_of_era_day era doe =
     civil era (year_of_era doe) (day_of_year doe (year_of_era doe))
       ((5 * day_of_year doe (year_of_era doe) + 2) div 153)"

definition civil_from_days :: "int \<Rightarrow> int \<times> int \<times> int" where
  "civil_from_days days =
     civil_of_era_day ((days + 719468) div 146097) ((days + 719468) mod 146097)"

definition strftime_dmY :: "int \<Rightarrow> string" where
  "strftime_dmY days =
     (case civil_from_days days of
        (y, m, d) \<Rightarrow> two_digits d @ ''.'' @ two_digits m @ ''.'' @ four_digits y)"

definition example_library :: library where
  "example_library =
     \<lparr> lower = map ascii_lower,
       to_datetime = (\<lambda>s. ParseException),
       strftime = strftime_dmY \<rparr>"

section \<open>Period and location assignment\<close>

lemma get_period_info_step:
  "get_period_info lib (period # rest) date =
     (if contains_date lib period date then (Some (Name period), Some (Location period))
      else get_period_info lib rest date)"
  by (simp add: ensure_timestamp_def date_of_cell_def contains_date_def between_def
      split: date_cell.splits parsed.splits)

text \<open>
  Claim C4. The definitions are scanned in the order given, and the result is the name
  and location of the first one whose inclusive range contains the date (\<open>find\<close> returns
  the first element of a list that satisfies a predicate); when none does, both
  components are null. With overlapping definitions the earlier one wins.
\<close>

theorem get_period_info_first_match:
  "get_period_info lib shooting_periods date =
     (case find (\<lambda>period. contains_date lib period date) shooting_periods of
        None \<Rightarrow> (None, None)
      | Some period \<Rightarrow> (Some (Name period), Some (Location period)))"
proof (induction shooting_periods)
  case Nil
  show ?case by simp
next
  case (Cons period rest)
  show ?case
    unfolding get_period_info_step using Cons.IH by simp
qed

text \<open>
  Two overlapping definitions: day 17 lies in both and gets the first, day 25 lies in
  the second only, day 40 in none.
\<close>

theorem get_period_info_first_match_witness:
  "get_period_info example_library
     [\<lparr>Name = ''P1'', Location = ''Away'', Start_Date = Timestamp 10, End_Date = Timestamp 20\<rparr>,
      \<lparr>Name = ''P2'', Location = ''Local'', Start_Date = Timestamp 15, End_Date = Timestamp 30\<rparr>]
     17 = (Some ''P1'', Some ''Away'') \<and>
   get_period_info example_library
     [\<lparr>Name = ''P1'', Location = ''Away'', Start_Date = Timestamp 10, End_Date = Timestamp 20\<rparr>,
      \<lparr>Name = ''P2'', Location = ''Local'', Start_Date = Timestamp 15, End_Date = Timestamp 30\<rparr>]
     25 = (Some ''P2'', Some ''Local'') \<and>
   get_period_info example_library
     [\<lparr>Name = ''P1'', Location = ''Away'', Start_Date = Timestamp 10, End_Date = Timestamp 20\<rparr>,
      \<lparr>Name = ''P2'', Location = ''Local'', Start_Date = Timestamp 15, End_Date = Timestamp 30\<rparr>]
     40 = (None, None)"
  unfolding get_period_info_first_match
  by (simp add: contains_date_def date_of_cell_def)

section \<open>The weekend policy\<close>

lemma process_period_weekend_policy:
  "process_period lib True = process_period lib False"
  by (intro ext) (simp add: process_period_def)

lemma process_group_weekend_policy:
  "process_group lib max_gap True = process_group lib max_gap False"
  unfolding process_group_def process_period_weekend_policy by (rule refl)

text \<open>
  Claim C9. The weekend policy flag has no effect: for every schedule, threshold,
  arrival and departure option, cast settings and period definitions, the pass with
  \<open>weekend_policy = True\<close> and the pass with \<open>weekend_policy = False\<close> give the same
  summary, export and calendar output (or raise the same exception).
\<close>

theorem weekend_policy_no_op:
  "apply_user_logic lib df_cast_dates max_gap True arrival_option departure_option
     cast_member_settings shooting_periods =
   apply_user_logic lib df_cast_dates max_gap False arrival_option departure_option
     cast_member_settings shooting_periods"
  unfolding apply_user_logic_def process_group_weekend_policy by (rule refl)

section \<open>Gaps between the shooting dates of a cast member\<close>

lemma length_shift_by_member [simp]:
  "length (shift_by_member seen df) = length df"
  by (induction df arbitrary: seen) simp_all

lemma shift_by_member_first:
  "i < length df \<Longrightarrow> \<forall>j<i. Cast_Member (df ! j) \<noteq> Cast_Member (df ! i) \<Longrightarrow>
   shift_by_member seen df ! i = seen (Cast_Member (df ! i))"
proof (induction df arbitrary: seen i)
  case Nil
  then show ?case by simp
next
  case (Cons r rs)
  show ?case
  proof (cases i)
    case 0
    then show ?thesis by simp
  next
    case (Suc i')
    with Cons.prems have len: "i' < length rs" by simp
    have later: "\<forall>j<i'. Cast_Member (rs ! j) \<noteq> Cast_Member (rs ! i')"
    proof (intro allI impI)
      fix j assume "j < i'"
      then have "Suc j < i" using Suc by simp
      with Cons.prems(2) have "Cast_Member ((r # rs) ! Suc j) \<noteq> Cast_Member ((r # rs) ! i)"
        by blast
      then show "Cast_Member (rs ! j) \<noteq> Cast_Member (rs ! i')" using Suc by simp
    qed
    have head: "Cast_Member r \<noteq> Cast_Member (rs ! i')"
      using Cons.prems(2) Suc by force
    have "shift_by_member (seen(Cast_Member r \<mapsto> Shooting_Date r)) rs ! i' =
          (seen(Cast_Member r \<mapsto> Shooting_Date r)) (Cast_Member (rs ! i'))"
      using Cons.IH [OF len later] .
    with head show ?thesis using Suc by simp
  qed
qed

lemma shift_by_member_previous:
  "i < length df \<Longrightarrow> j < i \<Longrightarrow> Cast_Member (df ! j) = Cast_Member (df ! i) \<Longrightarrow>
   \<forall>k. j < k \<and> k < i \<longrightarrow> Cast_Member (df ! k) \<noteq> Cast_Member (df ! i) \<Longrightarrow>
   shift_by_member seen df ! i = Some (Shooting_Date (df ! j))"
proof (induction df arbitrary: seen i j)
  case Nil
  then show ?case by simp
next
  case (Cons r rs)
  from Cons.prems obtain i' where i: "i = Suc i'" and len: "i' < length rs"
    by (cases i) auto
  show ?case
  proof (cases j)
    case 0
    have between: "\<forall>k<i'. Cast_Member (rs ! k) \<noteq> Cast_Member (rs ! i')"
    proof (intro allI impI)
      fix k assume "k < i'"
      then have "j < Suc k \<and> Suc k < i" using 0 i by simp
      with Cons.prems(4) have "Cast_Member ((r # rs) ! Suc k) \<noteq> Cast_Member ((r # rs) ! i)"
        by blast
      then show "Cast_Member (rs ! k) \<noteq> Cast_Member (rs ! i')" using i by simp
    qed
    have same: "Cast_Member r = Cast_Member (rs ! i')"
      using Cons.prems(3) 0 i by simp
    have "shift_by_member (seen(Cast_Member r \<mapsto> Shooting_Date r)) rs ! i' =
          (seen(Cast_Member r \<mapsto> Shooting_Date r)) (Cast_Member (rs ! i'))"
      using shift_by_member_first [OF len between] .
    with same show ?thesis using 0 i by simp
  next
    case (Suc j')
    have lt: "j' < i'" using Cons.prems(2) Suc i by simp
    have same: "Cast_Member (rs ! j') = Cast_Member (rs ! i')"
      using Cons.prems(3) Suc i by simp
    have between: "\<forall>k. j' < k \<and> k < i' \<longrightarrow> Cast_Member (rs ! k) \<noteq> Cast_Member (rs ! i')"
    proof (intro allI impI)
      fix k assume "j' < k \<and> k < i'"
      then have "j < Suc k \<and> Suc k < i" using Suc i by simp
      with Cons.prems(4) have "Cast_Member ((r # rs) ! Suc k) \<noteq> Cast_Member ((r # rs) ! i)"
        by blast
      then show "Cast_Member (rs ! k) \<noteq> Cast_Member (rs ! i')" using i by simp
    qed
    have "shift_by_member (seen(Cast_Member r \<mapsto> Shooting_Date r)) rs ! i' =
          Some (Shooting_Date (rs ! j'))"
      using Cons.IH [OF len lt same between] .
    then show ?thesis using Suc i by simp
  qed
qed

lemma Gap_calculate_gaps:
  "i < length df \<Longrightarrow>
   Gap (calculate_gaps df ! i) =
     gap_since (Shooting_Date (df ! i)) (shift_by_member Map.empty df ! i)"
  by (simp add: calculate_gaps_def annotate_gap_def Let_def)

text \<open>
  Claim C2, as amended. In the frame returned by \<^verbatim>\<open>calculate_gaps\<close> the first record of
  every cast member has gap 0. A later record of the member, whose nearest earlier record
  of the same member is row \<open>j\<close>, has the gap
  \<open>Shooting_Date i - Shooting_Date j - 1\<close>: this is \<open>- 1\<close> when the two records are on the
  same calendar date (nothing clamps it) and it is at least 0 when the later record has
  the later date, as in the sorted schedule without duplicates that the loader produces.
\<close>

theorem calculate_gaps_gap:
  assumes "i < length df"
  shows "((\<forall>j<i. Cast_Member (df ! j) \<noteq> Cast_Member (df ! i)) \<longrightarrow>
            Gap (calculate_gaps df ! i) = 0) \<and>
         (j < i \<and> Cast_Member (df ! j) = Cast_Member (df ! i) \<and>
          (\<forall>k. j < k \<and> k < i \<longrightarrow> Cast_Member (df ! k) \<noteq> Cast_Member (df ! i)) \<longrightarrow>
            Gap (calculate_gaps df ! i) = Shooting_Date (df ! i) - Shooting_Date (df ! j) - 1 \<and>
            (Shooting_Date (df ! i) = Shooting_Date (df ! j) \<longrightarrow>
               Gap (calculate_gaps df ! i) = - 1) \<and>
            (Shooting_Date (df ! j) < Shooting_Date (df ! i) \<longrightarrow>
               0 \<le> Gap (calculate_gaps df ! i)))"
proof (intro conjI impI)
  assume "\<forall>j<i. Cast_Member (df ! j) \<noteq> Cast_Member (df ! i)"
  then have "shift_by_member Map.empty df ! i = None"
    using shift_by_member_first [OF assms, of Map.empty] by simp
  then show "Gap (calculate_gaps df ! i) = 0"
    using assms by (simp add: Gap_calculate_gaps gap_since_def)
next
  assume prev: "j < i \<and> Cast_Member (df ! j) = Cast_Member (df ! i) \<and>
               (\<forall>k. j < k \<and> k < i \<longrightarrow> Cast_Member (df ! k) \<noteq> Cast_Member (df ! i))"
  then have j: "j < i" by simp
  have "shift_by_member Map.empty df ! i = Some (Shooting_Date (df ! j))"
    using shift_by_member_previous [OF assms j, of Map.empty] prev by blast
  then have gap: "Gap (calculate_gaps df ! i) = Shooting_Date (df ! i) - Shooting_Date (df ! j) - 1"
    using assms by (simp add: Gap_calculate_gaps gap_since_def)
  show "Gap (calculate_gaps df ! i) = Shooting_Date (df ! i) - Shooting_Date (df ! j) - 1"
    by (rule gap)
  show "Gap (calculate_gaps df ! i) = - 1" if "Shooting_Date (df ! i) = Shooting_Date (df ! j)"
    using gap that by simp
  show "0 \<le> Gap (calculate_gaps df ! i)" if "Shooting_Date (df ! j) < Shooting_Date (df ! i)"
    using gap that by simp
qed

text \<open>
  Rows 1 and 2 illustrate the first two parts, row 3 repeats the date of row 2.
\<close>

theorem calculate_gaps_gap_witness:
  "Gap (calculate_gaps
     [\<lparr>Cast_Member = ''A'', Shooting_Date = 19732\<rparr>,
      \<lparr>Cast_Member = ''B'', Shooting_Date = 19733\<rparr>,
      \<lparr>Cast_Member = ''A'', Shooting_Date = 19736\<rparr>,
      \<lparr>Cast_Member = ''A'', Shooting_Date = 19736\<rparr>] ! 1) = 0 \<and>
   Gap (calculate_gaps
     [\<lparr>Cast_Member = ''A'', Shooting_Date = 19732\<rparr>,
      \<lparr>Cast_Member = ''B'', Shooting_Date = 19733\<rparr>,
      \<lparr>Cast_Member = ''A'', Shooting_Date = 19736\<rparr>,
      \<lparr>Cast_Member = ''A'', Shooting_Date = 19736\<rparr>] ! 2) = 3 \<and>
   Gap (calculate_gaps
     [\<lparr>Cast_Member = ''A'', Shooting_Date = 19732\<rparr>,
      \<lparr>Cast_Member = ''B'', Shooting_Date = 19733\<rparr>,
      \<lparr>Cast_Member = ''A'', Shooting_Date = 19736\<rparr>,
      \<lparr>Cast_Member = ''A'', Shooting_Date = 19736\<rparr>] ! 3) = - 1"
proof -
  let ?df = "[\<lparr>Cast_Member = ''A'', Shooting_Date = 19732\<rparr>,
      \<lparr>Cast_Member = ''B'', Shooting_Date = 19733\<rparr>,
      \<lparr>Cast_Member = ''A'', Shooting_Date = 19736\<rparr>,
      \<lparr>Cast_Member = ''A'', Shooting_Date = 19736\<rparr>]"
  have first: "\<forall>j<1. Cast_Member (?df ! j) \<noteq> Cast_Member (?df ! 1)"
    by simp
  have between: "\<forall>k. 0 < k \<and> k < 2 \<longrightarrow> Cast_Member (?df ! k) \<noteq> Cast_Member (?df ! 2)"
  proof (intro allI impI)
    fix k :: nat assume "0 < k \<and> k < 2"
    then have "k = 1" by simp
    then show "Cast_Member (?df ! k) \<noteq> Cast_Member (?df ! 2)" by simp
  qed
  have adjacent: "\<forall>k. 2 < k \<and> k < 3 \<longrightarrow> Cast_Member (?df ! k) \<noteq> Cast_Member (?df ! 3)"
    by simp
  have "Gap (calculate_gaps ?df ! 1) = 0"
    using calculate_gaps_gap [of 1 ?df] first by simp
  moreover have "Gap (calculate_gaps ?df ! 2) =
      Shooting_Date (?df ! 2) - Shooting_Date (?df ! 0) - 1"
    using calculate_gaps_gap [of 2 ?df 0] between by simp
  moreover have "Gap (calculate_gaps ?df ! 3) =
      Shooting_Date (?df ! 3) - Shooting_Date (?df ! 2) - 1"
    using calculate_gaps_gap [of 3 ?df 2] adjacent by simp
  ultimately show ?thesis by simp
qed

text \<open>
  The claim as stated asks for gap 0, never a negative gap, on two consecutive records
  of one cast member on the same date. The code gives \<open>- 1\<close>.
\<close>

theorem calculate_gaps_same_date_counterexample:
  "map Gap (calculate_gaps
     [\<lparr>Cast_Member = ''A'', Shooting_Date = 19732\<rparr>,
      \<lparr>Cast_Member = ''A'', Shooting_Date = 19732\<rparr>]) = [0, - 1]"
  by (simp add: calculate_gaps_def annotate_gap_def gap_since_def Let_def)

section \<open>Splitting a group into stay periods\<close>

lemma map_filter_Some: "List.map_filter (\<lambda>x. Some (f x)) xs = map f xs"
  by (induction xs) simp_all

lemma groupby_total:
  "groupby (\<lambda>row. Some (f row)) df =
     map (\<lambda>k. (k, filter (\<lambda>row. f row = k) df)) (sorted_list_of_set (set (map f df)))"
  unfolding groupby_def map_filter_Some sorted_list_of_set_sort_remdups by simp

lemma groupby_member:
  "(k, g) \<in> set (groupby key df) \<Longrightarrow> row \<in> set g \<Longrightarrow> key row = Some k"
  by (auto simp add: groupby_def)

lemma groupby_nonempty: "(k, g) \<in> set (groupby key df) \<Longrightarrow> g \<noteq> []"
proof -
  assume "(k, g) \<in> set (groupby key df)"
  then have k: "k \<in> set (List.map_filter key df)" and g: "g = filter (\<lambda>r. key r = Some k) df"
    by (auto simp add: groupby_def)
  from k obtain r where "r \<in> set df" and "key r = Some k"
    by (auto simp add: List.map_filter_def)
  with g show "g \<noteq> []"
    by (auto simp add: filter_empty_conv)
qed

text \<open>Every stay period of a group holds at least one shooting date.\<close>

lemma periods_nonempty:
  "(period_number, shooting_dates) \<in> set (periods max_gap dates) \<Longrightarrow> shooting_dates \<noteq> []"
  using groupby_nonempty by (fastforce simp add: periods_def)

lemma cumsum_ge: "x \<in> set (cumsum running bs) \<Longrightarrow> running \<le> x"
proof (induction bs arbitrary: running)
  case Nil
  then show ?case by simp
next
  case (Cons b bs)
  then show ?case by (fastforce simp add: Let_def)
qed

lemma length_cumsum [simp]: "length (cumsum running bs) = length bs"
  by (induction bs arbitrary: running) (simp_all add: Let_def)

lemma length_gaps_after [simp]: "length (gaps_after previous dates) = length dates"
  by (induction dates arbitrary: previous) simp_all

lemma sorted_list_of_set_least:
  assumes "finite A" and "x \<in> A" and "\<And>y. y \<in> A \<Longrightarrow> x \<le> y"
  shows "sorted_list_of_set A = x # sorted_list_of_set (A - {x})"
proof -
  have "Min A = x" using assms by (intro Min_eqI) auto
  moreover have "A \<noteq> {}" using assms(2) by auto
  ultimately show ?thesis
    using sorted_list_of_set_nonempty [OF assms(1)] by simp
qed

text \<open>
  The induction behind the next theorem: the first row of a group carries the label \<open>l\<close>,
  the labels of the later rows are the running count started at \<open>l\<close>, and grouping the
  rows by label in ascending order gives the runs of the specification.
\<close>

lemma stay_periods_labels:
  "map (\<lambda>k. map fst (filter (\<lambda>row. snd row = k)
          (zip (d # rest) (l # cumsum l (map (\<lambda>gap. max_gap \<le> gap) (gaps_after d rest))))))
     (sorted_list_of_set (set (l # cumsum l (map (\<lambda>gap. max_gap \<le> gap) (gaps_after d rest))))) =
   stay_periods max_gap (d # rest)"
proof (induction rest arbitrary: d l)
  case Nil
  show ?case by simp
next
  case (Cons e ds)
  define l' where "l' = l + (if max_gap \<le> e - d - 1 then 1 else 0)"
  define tail where "tail = cumsum l' (map (\<lambda>gap. max_gap \<le> gap) (gaps_after e ds))"
  define rows where "rows = zip (e # ds) (l' # tail)"
  define S where "S = set (l' # tail)"
  define runs where "runs = (\<lambda>k. map fst (filter (\<lambda>row. snd row = k) rows))"
  have labels: "cumsum l (map (\<lambda>gap. max_gap \<le> gap) (gaps_after d (e # ds))) = l' # tail"
    by (simp add: l'_def tail_def Let_def)
  have IH: "map runs (sorted_list_of_set S) = stay_periods max_gap (e # ds)"
    unfolding runs_def rows_def tail_def S_def by (rule Cons.IH)
  have fin: "finite S" and mem: "l' \<in> S"
    by (simp_all add: S_def)
  have ge: "l' \<le> x" if "x \<in> S" for x
    using that cumsum_ge [of x l'] by (auto simp add: S_def tail_def)
  have "length (e # ds) = length (l' # tail)"
    by (simp add: tail_def)
  then have "map snd rows = l' # tail"
    unfolding rows_def by (rule map_snd_zip)
  then have snd_rows: "snd ` set rows = S"
    unfolding S_def by (metis set_map)
  have least: "sorted_list_of_set S = l' # sorted_list_of_set (S - {l'})"
    using fin mem ge by (rule sorted_list_of_set_least)
  have goal_rows: "zip (d # e # ds) (l # l' # tail) = (d, l) # rows"
    by (simp add: rows_def)
  have goal_keys: "set (l # l' # tail) = insert l S"
    by (simp add: S_def)
  have cons_run: "map fst (filter (\<lambda>row. snd row = k) ((d, l) # rows)) =
      (if k = l then d # runs k else runs k)" for k
    by (auto simp add: runs_def)
  show ?case
  proof (cases "max_gap \<le> e - d - 1")
    case True
    then have l': "l' = Suc l" by (simp add: l'_def)
    have fresh: "l \<notin> S"
      using ge [of l] l' by auto
    have "sorted_list_of_set (insert l S) = l # sorted_list_of_set (insert l S - {l})"
    proof (rule sorted_list_of_set_least)
      fix y assume "y \<in> insert l S"
      then show "l \<le> y" using ge [of y] l' by auto
    qed (simp_all add: fin)
    moreover have "insert l S - {l} = S"
      using fresh by auto
    ultimately have keys: "sorted_list_of_set (insert l S) = l # sorted_list_of_set S"
      by simp
    have "filter (\<lambda>row. snd row = l) rows = []"
      using fresh snd_rows by (auto simp add: filter_empty_conv)
    then have first: "runs l = []"
      by (simp add: runs_def)
    have "k \<noteq> l" if "k \<in> set (sorted_list_of_set S)" for k
      using that fresh fin by auto
    then have others: "map (\<lambda>k. if k = l then d # runs k else runs k) (sorted_list_of_set S) =
        map runs (sorted_list_of_set S)"
      by (intro map_cong refl) simp
    show ?thesis
      unfolding labels goal_rows goal_keys keys cons_run
      using True first others IH by simp
  next
    case False
    then have l': "l' = l" by (simp add: l'_def)
    have keys: "sorted_list_of_set (insert l S) = l # sorted_list_of_set (S - {l})"
      using least mem l' by (simp add: insert_absorb)
    have "k \<noteq> l" if "k \<in> set (sorted_list_of_set (S - {l}))" for k
      using that fin by auto
    then have others:
      "map (\<lambda>k. if k = l then d # runs k else runs k) (sorted_list_of_set (S - {l})) =
        map runs (sorted_list_of_set (S - {l}))"
      by (intro map_cong refl) simp
    have split: "stay_periods max_gap (e # ds) =
        runs l # map runs (sorted_list_of_set (S - {l}))"
      using IH least l' by simp
    show ?thesis
      unfolding labels goal_rows goal_keys keys cons_run
      using False others split by simp
  qed
qed

lemma periods_stay_periods: "map snd (periods max_gap dates) = stay_periods max_gap dates"
proof (cases dates)
  case Nil
  then show ?thesis
    by (simp add: periods_def new_period_def local_gaps_def groupby_def)
next
  case (Cons d rest)
  have "map snd (periods max_gap (d # rest)) =
      map (\<lambda>k. map fst (filter (\<lambda>row. snd row = k)
            (zip (d # rest) (new_period max_gap (d # rest)))))
        (sorted_list_of_set (set (new_period max_gap (d # rest))))"
    by (simp add: periods_def groupby_total new_period_def local_gaps_def Let_def o_def
        split_def del: set_simps)
  also have "\<dots> = stay_periods max_gap (d # rest)"
    using stay_periods_labels [of d rest "if max_gap \<le> 0 then 1 else 0" max_gap]
    by (simp add: new_period_def local_gaps_def Let_def)
  finally show ?thesis using Cons by simp
qed

lemma stay_periods_zero:
  "sorted dates \<Longrightarrow> distinct dates \<Longrightarrow> stay_periods 0 dates = map (\<lambda>d. [d]) dates"
  by (induction "0 :: int" dates rule: stay_periods.induct) auto

text \<open>
  Claim C3, as amended. Within a group of date-sorted records the stay periods that
  \<^verbatim>\<open>groupby('New Period')\<close> yields are the runs of \<open>stay_periods\<close>: a new stay period
  starts exactly at the records whose local gap (the date minus the date of the
  preceding record of the group, minus one) is at least \<^verbatim>\<open>max_gap\<close>. Consequently, with
  threshold 0 every record of a group whose dates are pairwise distinct is in a stay
  period of its own.
\<close>

theorem stay_periods_split_at_threshold:
  "map snd (periods max_gap dates) = stay_periods max_gap dates \<and>
   (sorted dates \<and> distinct dates \<longrightarrow>
      map snd (periods 0 dates) = map (\<lambda>d. [d]) dates)"
  by (simp add: periods_stay_periods stay_periods_zero)

text \<open>
  Four dates with local gaps 0, 2 and 4: threshold 2 cuts before the third and the
  fourth date, threshold 0 cuts everywhere.
\<close>

theorem stay_periods_split_at_threshold_witness:
  "map snd (periods 2 [19732, 19733, 19736, 19741]) = [[19732, 19733], [19736], [19741]] \<and>
   map snd (periods 0 [19732, 19733, 19736, 19741]) = [[19732], [19733], [19736], [19741]]"
  using stay_periods_split_at_threshold [of 2 "[19732, 19733, 19736, 19741]"]
    stay_periods_split_at_threshold [of 0 "[19732, 19733, 19736, 19741]"]
  by simp

text \<open>
  The claim as stated has no condition on the dates. A date that occurs twice in a group
  has local gap \<open>- 1\<close>, which is below the threshold 0, so the two records share one stay
  period.
\<close>

theorem stay_periods_repeated_date_counterexample:
  "periods 0 [19732, 19732] = [(1, [19732, 19732])]"
  by (simp add: periods_def new_period_def local_gaps_def groupby_def)

section \<open>Properties of one stay period\<close>

subsection \<open>What \<^verbatim>\<open>process_period\<close> computes\<close>

lemma Min_le_Max_set: "xs \<noteq> [] \<Longrightarrow> Min (set xs) \<le> Max (set xs)"
proof -
  assume "xs \<noteq> []"
  then have "hd xs \<in> set xs" by simp
  then have "Min (set xs) \<le> hd xs" and "hd xs \<le> Max (set xs)" by simp_all
  then show ?thesis by (rule order_trans)
qed

lemma travel_plan_valid:
  assumes "arrival_option = ''Day Before Shooting'' \<or> arrival_option = ''Same Day as Shooting''"
    and "departure_option = ''Day After Shooting'' \<or> departure_option = ''Same Day as Shooting''"
  shows "travel_plan arrival_option departure_option shooting_dates =
     (let arr = (if arrival_option = ''Day Before Shooting'' then Min (set shooting_dates) - 1
                 else Min (set shooting_dates));
          dep = (if departure_option = ''Day After Shooting'' then Max (set shooting_dates) + 1
                 else Max (set shooting_dates))
      in Inr (arr, dep, if dep = arr then [arr] else [dep, arr]))"
  using assms by (auto simp add: travel_plan_def Let_def)

lemma process_period_travel:
  assumes "arrival_option = ''Day Before Shooting'' \<or> arrival_option = ''Same Day as Shooting''"
    and "departure_option = ''Day After Shooting'' \<or> departure_option = ''Same Day as Shooting''"
  shows "process_period lib weekend_policy arrival_option departure_option
           name home_location period_name True (period_number, shooting_dates) st =
     (let arr = (if arrival_option = ''Day Before Shooting'' then Min (set shooting_dates) - 1
                 else Min (set shooting_dates));
          dep = (if departure_option = ''Day After Shooting'' then Max (set shooting_dates) + 1
                 else Max (set shooting_dates));
          gap_dates = filter (\<lambda>date. date \<notin> set shooting_dates) (date_range (arr + 1) (dep - 1))
      in Inr (st
           \<lparr> total_accommodation := total_accommodation st + (dep - arr),
             total_travel := total_travel st + (if dep = arr then 1 else 2),
             export_data := export_data st @
               [\<lparr> E_Cast_Member = name,
                  E_Home_Location = home_location,
                  E_Period_Name = (if period_name \<noteq> [] then period_name else ''Local''),
                  Period_Number = period_number,
                  Period_Dates = strftime lib arr @ en_dash @ strftime lib dep,
                  Period_Start_Date = arr,
                  Period_End_Date = dep,
                  Period_Travel_Days = (if dep = arr then 1 else 2),
                  Period_Accommodation_Nights = dep - arr,
                  Number_of_Shooting_Days = length shooting_dates,
                  Number_of_Gap_Days = length gap_dates,
                  Number_of_Travel_Days = (if dep = arr then 1 else 2),
                  Shooting_Dates = shooting_dates,
                  X = 1,
                  X4 = 1,
                  E_Requires_Travel = True \<rparr>],
             calendar_data := calendar_data st @
               [calendar_entry lib name (''Travel to '' @ period_name) arr
                  (''Travel from '' @ home_location @ '' to '' @ period_name) period_name] @
               shooting_events lib name period_name shooting_dates @
               gap_events lib name period_name gap_dates @
               [calendar_entry lib name (''Travel back to '' @ home_location) dep
                  (''Travel from '' @ period_name @ '' to '' @ home_location)
                  home_location] \<rparr>))"
  unfolding process_period_def travel_plan_valid [OF assms]
  by (simp add: Let_def)

lemma process_period_no_travel:
  "process_period lib weekend_policy arrival_option departure_option
     name home_location period_name False (period_number, shooting_dates) st =
   Inr (st \<lparr> calendar_data := calendar_data st @
          shooting_events lib name period_name shooting_dates @
          gap_events lib name period_name
            (filter (\<lambda>date. date \<notin> set shooting_dates)
               (date_range (Min (set shooting_dates)) (Max (set shooting_dates)))) \<rparr>)"
  by (simp add: process_period_def Let_def)

lemma shooting_events_titles:
  "ev \<in> set (shooting_events lib name period_name shooting_dates) \<Longrightarrow>
   Title ev = ''Shooting in '' @ period_name"
  by (auto simp add: shooting_events_def calendar_entry_def)

lemma gap_events_titles:
  "ev \<in> set (gap_events lib name period_name gap_dates) \<Longrightarrow>
   Title ev = ''Gap Day in '' @ period_name"
  by (auto simp add: gap_events_def calendar_entry_def)

lemma filter_travel_shooting_events:
  "filter (\<lambda>ev. take 6 (Title ev) = ''Travel'')
     (shooting_events lib name period_name shooting_dates) = []"
  by (simp add: shooting_events_def calendar_entry_def filter_map o_def)

lemma filter_travel_gap_events:
  "filter (\<lambda>ev. take 6 (Title ev) = ''Travel'')
     (gap_events lib name period_name gap_dates) = []"
  by (simp add: gap_events_def calendar_entry_def filter_map o_def)

lemma gap_dates_sorted_distinct:
  "sorted (filter P (date_range a b)) \<and> distinct (filter P (date_range a b))"
  by (simp add: date_range_def sorted_filter [where f = "\<lambda>x. x", simplified])

text \<open>Renderings of the days used in the examples, and the facts that evaluate them.\<close>

lemmas strftime_defs =
  strftime_dmY_def civil_from_days_def civil_of_era_day_def civil_def day_of_year_def
  year_of_era_def two_digits_def four_digits_def digit_def

lemma strftime_dmY_examples:
  "strftime_dmY 19731 = ''09.01.2024''"
  "strftime_dmY 19732 = ''10.01.2024''"
  "strftime_dmY 19733 = ''11.01.2024''"
  "strftime_dmY 19734 = ''12.01.2024''"
  "strftime_dmY 19735 = ''13.01.2024''"
  by (simp_all add: strftime_defs)

lemmas evaluation_defs =
  Let_def date_range_def shooting_events_def gap_events_def calendar_entry_def
  example_library_def ascii_lower_def strftime_dmY_examples

subsection \<open>Arrival, departure and travel days\<close>

text \<open>
  Claim C5. For a stay period that requires travel, run with one of the two arrival
  options and one of the two departure options, the pass appends one export record. Its
  start date (the arrival date) is the earliest shooting date minus one day under ``Day
  Before Shooting'' and the earliest shooting date under ``Same Day as Shooting''; its end
  date (the departure date) is the latest shooting date plus one day under ``Day After
  Shooting'' and the latest shooting date under ``Same Day as Shooting''. The number of
  travel days is 1 when departure and arrival coincide and 2 otherwise, and it is added
  to the travel total of the group. A single shooting date under both same-day options
  gives one travel day.
\<close>

theorem stay_period_travel_days:
  assumes "arrival_option = ''Day Before Shooting'' \<or> arrival_option = ''Same Day as Shooting''"
    and "departure_option = ''Day After Shooting'' \<or> departure_option = ''Same Day as Shooting''"
  shows "\<exists>st' e.
     process_period lib weekend_policy arrival_option departure_option
       name home_location period_name True (period_number, shooting_dates) st = Inr st' \<and>
     export_data st' = export_data st @ [e] \<and>
     (arrival_option = ''Day Before Shooting'' \<longrightarrow>
        Period_Start_Date e = Min (set shooting_dates) - 1) \<and>
     (arrival_option = ''Same Day as Shooting'' \<longrightarrow>
        Period_Start_Date e = Min (set shooting_dates)) \<and>
     (departure_option = ''Day After Shooting'' \<longrightarrow>
        Period_End_Date e = Max (set shooting_dates) + 1) \<and>
     (departure_option = ''Same Day as Shooting'' \<longrightarrow>
        Period_End_Date e = Max (set shooting_dates)) \<and>
     Period_Travel_Days e = (if Period_End_Date e = Period_Start_Date e then 1 else 2) \<and>
     Number_of_Travel_Days e = Period_Travel_Days e \<and>
     total_travel st' = total_travel st + Period_Travel_Days e \<and>
     (arrival_option = ''Same Day as Shooting'' \<and>
      departure_option = ''Same Day as Shooting'' \<and> set shooting_dates = {d} \<longrightarrow>
        Period_Start_Date e = d \<and> Period_End_Date e = d \<and> Period_Travel_Days e = 1)"
  unfolding process_period_travel [OF assms]
  by (simp add: Let_def)

text \<open>A single date under both same-day options, and two dates under day before and day after.\<close>

theorem stay_period_travel_days_witness:
  "(\<exists>st' e.
      process_period example_library True ''Same Day as Shooting'' ''Same Day as Shooting''
        ''A'' ''Local'' ''P1'' True (0, [19732])
        \<lparr>total_accommodation = 0, total_travel = 0, results = [], export_data = [],
         calendar_data = []\<rparr> = Inr st' \<and>
      export_data st' = [e] \<and> Period_Start_Date e = 19732 \<and> Period_End_Date e = 19732 \<and>
      Period_Travel_Days e = 1 \<and> total_travel st' = 1) \<and>
   (\<exists>st' e.
      process_period example_library True ''Day Before Shooting'' ''Day After Shooting''
        ''A'' ''Local'' ''P1'' True (0, [19732, 19733])
        \<lparr>total_accommodation = 0, total_travel = 0, results = [], export_data = [],
         calendar_data = []\<rparr> = Inr st' \<and>
      export_data st' = [e] \<and> Period_Start_Date e = 19731 \<and> Period_End_Date e = 19734 \<and>
      Period_Travel_Days e = 2 \<and> total_travel st' = 2)"
  using
    stay_period_travel_days [where arrival_option = "''Same Day as Shooting''"
      and departure_option = "''Same Day as Shooting''" and lib = example_library
      and weekend_policy = True and name = "''A''" and home_location = "''Local''"
      and period_name = "''P1''" and period_number = 0 and shooting_dates = "[19732]"
      and d = 19732
      and st = "\<lparr>total_accommodation = 0, total_travel = 0, results = [], export_data = [],
         calendar_data = []\<rparr>"]
    stay_period_travel_days [where arrival_option = "''Day Before Shooting''"
      and departure_option = "''Day After Shooting''" and lib = example_library
      and weekend_policy = True and name = "''A''" and home_location = "''Local''"
      and period_name = "''P1''" and period_number = 0 and shooting_dates = "[19732, 19733]"
      and d = 0
      and st = "\<lparr>total_accommodation = 0, total_travel = 0, results = [], export_data = [],
         calendar_data = []\<rparr>"]
  by auto

subsection \<open>Accommodation nights\<close>

text \<open>
  Claim C6. For a stay period that requires travel (like every stay period, it holds at
  least one shooting date), the accommodation nights of its export record are the departure date minus the
  arrival date in days. The number is never negative, it is 0 exactly when the two dates
  are equal, and it is added to the accommodation total of the group.
\<close>

theorem stay_period_accommodation_nights:
  assumes "arrival_option = ''Day Before Shooting'' \<or> arrival_option = ''Same Day as Shooting''"
    and "departure_option = ''Day After Shooting'' \<or> departure_option = ''Same Day as Shooting''"
    and "shooting_dates \<noteq> []"
  shows "\<exists>st' e.
     process_period lib weekend_policy arrival_option departure_option
       name home_location period_name True (period_number, shooting_dates) st = Inr st' \<and>
     export_data st' = export_data st @ [e] \<and>
     Period_Accommodation_Nights e = Period_End_Date e - Period_Start_Date e \<and>
     0 \<le> Period_Accommodation_Nights e \<and>
     (Period_Accommodation_Nights e = 0 \<longleftrightarrow> Period_Start_Date e = Period_End_Date e) \<and>
     total_accommodation st' = total_accommodation st + Period_Accommodation_Nights e"
  unfolding process_period_travel [OF assms(1,2)]
  using Min_le_Max_set [OF assms(3)] by (auto simp add: Let_def)

text \<open>Zero nights for a same-day visit, three nights around two shooting days.\<close>

theorem stay_period_accommodation_nights_witness:
  "(\<exists>st' e.
      process_period example_library True ''Same Day as Shooting'' ''Same Day as Shooting''
        ''A'' ''Local'' ''P1'' True (0, [19732])
        \<lparr>total_accommodation = 0, total_travel = 0, results = [], export_data = [],
         calendar_data = []\<rparr> = Inr st' \<and>
      export_data st' = [e] \<and> Period_Accommodation_Nights e = 0 \<and>
      total_accommodation st' = 0) \<and>
   (\<exists>st' e.
      process_period example_library True ''Day Before Shooting'' ''Day After Shooting''
        ''A'' ''Local'' ''P1'' True (0, [19732, 19733])
        \<lparr>total_accommodation = 0, total_travel = 0, results = [], export_data = [],
         calendar_data = []\<rparr> = Inr st' \<and>
      export_data st' = [e] \<and> Period_Accommodation_Nights e = 3 \<and>
      total_accommodation st' = 3)"
  using
    stay_period_accommodation_nights [where arrival_option = "''Same Day as Shooting''"
      and departure_option = "''Same Day as Shooting''" and lib = example_library
      and weekend_policy = True and name = "''A''" and home_location = "''Local''"
      and period_name = "''P1''" and period_number = 0 and shooting_dates = "[19732]"
      and st = "\<lparr>total_accommodation = 0, total_travel = 0, results = [], export_data = [],
         calendar_data = []\<rparr>"]
    stay_period_accommodation_nights [where arrival_option = "''Day Before Shooting''"
      and departure_option = "''Day After Shooting''" and lib = example_library
      and weekend_policy = True and name = "''A''" and home_location = "''Local''"
      and period_name = "''P1''" and period_number = 0 and shooting_dates = "[19732, 19733]"
      and st = "\<lparr>total_accommodation = 0, total_travel = 0, results = [], export_data = [],
         calendar_data = []\<rparr>"]
  by (simp add: process_period_travel Let_def)

subsection \<open>Gap dates\<close>

text \<open>
  Claim C8. For a stay period that requires travel, the gap dates are exactly the dates
  strictly between the arrival date and the departure date that are not shooting dates:
  the export record counts them and the calendar gets one ``Gap Day'' event for each,
  between the ``Travel to'' event, the shooting events and the ``Travel back to'' event.
  For a stay period that requires no travel, the gap dates are the dates from the
  earliest to the latest shooting date that are not shooting dates, no export record is
  written, and the calendar gets ``Shooting'' and ``Gap Day'' events only.
\<close>

theorem stay_period_gap_dates:
  "(arrival_option = ''Day Before Shooting'' \<or> arrival_option = ''Same Day as Shooting'' \<longrightarrow>
    departure_option = ''Day After Shooting'' \<or> departure_option = ''Same Day as Shooting'' \<longrightarrow>
    (\<exists>gap_dates st' e.
       process_period lib weekend_policy arrival_option departure_option
         name home_location period_name True (period_number, shooting_dates) st = Inr st' \<and>
       export_data st' = export_data st @ [e] \<and>
       set gap_dates =
         {date. Period_Start_Date e < date \<and> date < Period_End_Date e \<and>
                date \<notin> set shooting_dates} \<and>
       sorted gap_dates \<and> distinct gap_dates \<and>
       Number_of_Gap_Days e = length gap_dates \<and>
       calendar_data st' = calendar_data st @
         [calendar_entry lib name (''Travel to '' @ period_name) (Period_Start_Date e)
            (''Travel from '' @ home_location @ '' to '' @ period_name) period_name] @
         shooting_events lib name period_name shooting_dates @
         gap_events lib name period_name gap_dates @
         [calendar_entry lib name (''Travel back to '' @ home_location) (Period_End_Date e)
            (''Travel from '' @ period_name @ '' to '' @ home_location) home_location])) \<and>
   (\<exists>gap_dates.
      process_period lib weekend_policy arrival_option departure_option
        name home_location period_name False (period_number, shooting_dates) st =
        Inr (st \<lparr> calendar_data := calendar_data st @
               shooting_events lib name period_name shooting_dates @
               gap_events lib name period_name gap_dates \<rparr>) \<and>
      set gap_dates =
        {date. Min (set shooting_dates) \<le> date \<and> date \<le> Max (set shooting_dates) \<and>
               date \<notin> set shooting_dates} \<and>
      sorted gap_dates \<and> distinct gap_dates \<and>
      (\<forall>ev \<in> set (shooting_events lib name period_name shooting_dates @
                   gap_events lib name period_name gap_dates).
         Title ev = ''Shooting in '' @ period_name \<or> Title ev = ''Gap Day in '' @ period_name))"
proof (intro conjI impI)
  assume ao: "arrival_option = ''Day Before Shooting'' \<or> arrival_option = ''Same Day as Shooting''"
    and dep: "departure_option = ''Day After Shooting'' \<or> departure_option = ''Same Day as Shooting''"
  show "\<exists>gap_dates st' e.
       process_period lib weekend_policy arrival_option departure_option
         name home_location period_name True (period_number, shooting_dates) st = Inr st' \<and>
       export_data st' = export_data st @ [e] \<and>
       set gap_dates =
         {date. Period_Start_Date e < date \<and> date < Period_End_Date e \<and>
                date \<notin> set shooting_dates} \<and>
       sorted gap_dates \<and> distinct gap_dates \<and>
       Number_of_Gap_Days e = length gap_dates \<and>
       calendar_data st' = calendar_data st @
         [calendar_entry lib name (''Travel to '' @ period_name) (Period_Start_Date e)
            (''Travel from '' @ home_location @ '' to '' @ period_name) period_name] @
         shooting_events lib name period_name shooting_dates @
         gap_events lib name period_name gap_dates @
         [calendar_entry lib name (''Travel back to '' @ home_location) (Period_End_Date e)
            (''Travel from '' @ period_name @ '' to '' @ home_location) home_location]"
    unfolding process_period_travel [OF ao dep] Let_def
    by (rule exI [of _ "filter (\<lambda>date. date \<notin> set shooting_dates)
          (date_range
            ((if arrival_option = ''Day Before Shooting'' then Min (set shooting_dates) - 1
              else Min (set shooting_dates)) + 1)
            ((if departure_option = ''Day After Shooting'' then Max (set shooting_dates) + 1
              else Max (set shooting_dates)) - 1))"])
      (simp add: gap_dates_sorted_distinct, auto simp add: date_range_def)
next
  show "\<exists>gap_dates.
      process_period lib weekend_policy arrival_option departure_option
        name home_location period_name False (period_number, shooting_dates) st =
        Inr (st \<lparr> calendar_data := calendar_data st @
               shooting_events lib name period_name shooting_dates @
               gap_events lib name period_name gap_dates \<rparr>) \<and>
      set gap_dates =
        {date. Min (set shooting_dates) \<le> date \<and> date \<le> Max (set shooting_dates) \<and>
               date \<notin> set shooting_dates} \<and>
      sorted gap_dates \<and> distinct gap_dates \<and>
      (\<forall>ev \<in> set (shooting_events lib name period_name shooting_dates @
                   gap_events lib name period_name gap_dates).
         Title ev = ''Shooting in '' @ period_name \<or> Title ev = ''Gap Day in '' @ period_name)"
    unfolding process_period_no_travel
    by (rule exI [of _ "filter (\<lambda>date. date \<notin> set shooting_dates)
          (date_range (Min (set shooting_dates)) (Max (set shooting_dates)))"])
      (simp add: gap_dates_sorted_distinct,
       auto simp add: date_range_def dest: shooting_events_titles gap_events_titles)
qed

text \<open>
  Shooting on 10 and 12 January 2024 with travel the day before and the day after: one
  gap date, 11 January. Shooting on 10 and 13 January without travel: gap dates 11 and
  12 January.
\<close>

theorem stay_period_gap_dates_witness:
  "(\<exists>st' e.
      process_period example_library True ''Day Before Shooting'' ''Day After Shooting''
        ''A'' ''Local'' ''P1'' True (0, [19732, 19734])
        \<lparr>total_accommodation = 0, total_travel = 0, results = [], export_data = [],
         calendar_data = []\<rparr> = Inr st' \<and>
      export_data st' = [e] \<and> Number_of_Gap_Days e = 1 \<and>
      map Title (calendar_data st') =
        [''Travel to P1'', ''Shooting in P1'', ''Shooting in P1'', ''Gap Day in P1'',
         ''Travel back to Local''] \<and>
      map Start (calendar_data st') =
        [''09.01.2024'', ''10.01.2024'', ''12.01.2024'', ''11.01.2024'', ''13.01.2024'']) \<and>
   (\<exists>st'.
      process_period example_library True ''Day Before Shooting'' ''Day After Shooting''
        ''A'' ''Local'' ''P1'' False (0, [19732, 19735])
        \<lparr>total_accommodation = 0, total_travel = 0, results = [], export_data = [],
         calendar_data = []\<rparr> = Inr st' \<and>
      export_data st' = [] \<and>
      map Title (calendar_data st') =
        [''Shooting in P1'', ''Shooting in P1'', ''Gap Day in P1'', ''Gap Day in P1''] \<and>
      map Start (calendar_data st') =
        [''10.01.2024'', ''13.01.2024'', ''11.01.2024'', ''12.01.2024''])"
  using
    stay_period_gap_dates [where arrival_option = "''Day Before Shooting''"
      and departure_option = "''Day After Shooting''" and lib = example_library
      and weekend_policy = True and name = "''A''" and home_location = "''Local''"
      and period_name = "''P1''" and period_number = 0 and shooting_dates = "[19732, 19734]"
      and st = "\<lparr>total_accommodation = 0, total_travel = 0, results = [], export_data = [],
         calendar_data = []\<rparr>"]
  by (simp add: process_period_travel process_period_no_travel evaluation_defs)

subsection \<open>Travel events when arrival and departure coincide\<close>

text \<open>
  Claim C10. For a stay period that requires travel and whose arrival date equals its
  departure date (a single shooting date under both same-day options), the export
  record counts one travel day, and the calendar events of the period still hold two
  travel events on that date: ``Travel to'' the period and ``Travel back to'' the home
  location.
\<close>

theorem same_day_travel_events:
  assumes "arrival_option = ''Day Before Shooting'' \<or> arrival_option = ''Same Day as Shooting''"
    and "departure_option = ''Day After Shooting'' \<or> departure_option = ''Same Day as Shooting''"
  shows "\<exists>st' e evs.
     process_period lib weekend_policy arrival_option departure_option
       name home_location period_name True (period_number, shooting_dates) st = Inr st' \<and>
     export_data st' = export_data st @ [e] \<and>
     calendar_data st' = calendar_data st @ evs \<and>
     (arrival_option = ''Same Day as Shooting'' \<and>
      departure_option = ''Same Day as Shooting'' \<and> set shooting_dates = {d} \<longrightarrow>
        Period_Start_Date e = d \<and> Period_End_Date e = d) \<and>
     (Period_Start_Date e = Period_End_Date e \<longrightarrow>
        Period_Travel_Days e = 1 \<and>
        filter (\<lambda>ev. take 6 (Title ev) = ''Travel'') evs =
          [calendar_entry lib name (''Travel to '' @ period_name) (Period_Start_Date e)
             (''Travel from '' @ home_location @ '' to '' @ period_name) period_name,
           calendar_entry lib name (''Travel back to '' @ home_location) (Period_Start_Date e)
             (''Travel from '' @ period_name @ '' to '' @ home_location) home_location])"
  unfolding process_period_travel [OF assms]
  by (simp add: Let_def filter_travel_shooting_events filter_travel_gap_events)
    (simp add: calendar_entry_def)

text \<open>One shooting date, 10 January 2024, under both same-day options.\<close>

theorem same_day_travel_events_witness:
  "\<exists>st' e.
      process_period example_library True ''Same Day as Shooting'' ''Same Day as Shooting''
        ''A'' ''Local'' ''P1'' True (0, [19732])
        \<lparr>total_accommodation = 0, total_travel = 0, results = [], export_data = [],
         calendar_data = []\<rparr> = Inr st' \<and>
      export_data st' = [e] \<and> Period_Travel_Days e = 1 \<and>
      map Title (calendar_data st') =
        [''Travel to P1'', ''Shooting in P1'', ''Travel back to Local''] \<and>
      map Start (calendar_data st') = [''10.01.2024'', ''10.01.2024'', ''10.01.2024'']"
  using
    same_day_travel_events [where arrival_option = "''Same Day as Shooting''"
      and departure_option = "''Same Day as Shooting''" and lib = example_library
      and weekend_policy = True and name = "''A''" and home_location = "''Local''"
      and period_name = "''P1''" and period_number = 0 and shooting_dates = "[19732]"
      and d = 19732
      and st = "\<lparr>total_accommodation = 0, total_travel = 0, results = [], export_data = [],
         calendar_data = []\<rparr>"]
  by (simp add: process_period_travel evaluation_defs)

section \<open>The travel decision\<close>

text \<open>
  Claim C7. A row requires travel exactly when it has a shooting location and the
  lower-cased home location differs from the lower-cased shooting location; the column
  \<^verbatim>\<open>'Requires Travel'\<close> holds that value. When the two locations are equal up to case, the
  row does not require travel, and a stay period processed with this flag gets calendar
  events titled ``Shooting in'' and ``Gap Day in'' only: none of its events is a travel
  event, and no export record is written. (The events meant are those emitted for the
  stay period of these dates; a travel event of another stay period of the same person
  can fall on the same calendar day.)
\<close>

theorem requires_travel_iff:
  fixes row :: located_row
  shows "(requires_travel lib row \<longleftrightarrow>
      (\<exists>shooting_location. Shooting_Location row = Some shooting_location \<and>
         lower lib (Home_Location row) \<noteq> lower lib shooting_location)) \<and>
     Requires_Travel (with_requires_travel lib row) = requires_travel lib row \<and>
     (Shooting_Location row = Some shooting_location \<and>
      lower lib (Home_Location row) = lower lib shooting_location \<longrightarrow>
        \<not> requires_travel lib row \<and>
        (\<exists>evs.
           process_period lib weekend_policy arrival_option departure_option
             name home_location period_name (requires_travel lib row)
             (period_number, shooting_dates) st =
             Inr (st \<lparr> calendar_data := calendar_data st @ evs \<rparr>) \<and>
           filter (\<lambda>ev. take 6 (Title ev) = ''Travel'') evs = [] \<and>
           (\<forall>ev \<in> set evs.
              Title ev = ''Shooting in '' @ period_name \<or>
              Title ev = ''Gap Day in '' @ period_name)))"
proof (intro conjI impI)
  show "requires_travel lib row \<longleftrightarrow>
      (\<exists>shooting_location. Shooting_Location row = Some shooting_location \<and>
         lower lib (Home_Location row) \<noteq> lower lib shooting_location)"
    by (simp add: requires_travel_def split: option.split)
  show "Requires_Travel (with_requires_travel lib row) = requires_travel lib row"
    by (simp add: with_requires_travel_def)
next
  assume same: "Shooting_Location row = Some shooting_location \<and>
      lower lib (Home_Location row) = lower lib shooting_location"
  then show "\<not> requires_travel lib row"
    by (simp add: requires_travel_def)
  then have flag: "requires_travel lib row = False"
    by simp
  show "\<exists>evs.
           process_period lib weekend_policy arrival_option departure_option
             name home_location period_name (requires_travel lib row)
             (period_number, shooting_dates) st =
             Inr (st \<lparr> calendar_data := calendar_data st @ evs \<rparr>) \<and>
           filter (\<lambda>ev. take 6 (Title ev) = ''Travel'') evs = [] \<and>
           (\<forall>ev \<in> set evs.
              Title ev = ''Shooting in '' @ period_name \<or>
              Title ev = ''Gap Day in '' @ period_name)"
    unfolding flag process_period_no_travel
    by (rule exI [of _ "shooting_events lib name period_name shooting_dates @
          gap_events lib name period_name
            (filter (\<lambda>date. date \<notin> set shooting_dates)
               (date_range (Min (set shooting_dates)) (Max (set shooting_dates))))"])
      (auto simp add: filter_travel_shooting_events filter_travel_gap_events
        dest: shooting_events_titles gap_events_titles)
qed

text \<open>
  Home ``Local'' against the locations ``LOCAL'', ``Away'' and none; one shooting date
  processed with the flag of the first row.
\<close>

theorem requires_travel_iff_witness:
  "\<not> requires_travel example_library
        \<lparr>Cast_Member = ''A'', Shooting_Date = 19732, Period_Name = Some ''P1'',
         Shooting_Location = Some ''LOCAL'', Home_Location = ''Local'', Include = True\<rparr> \<and>
   requires_travel example_library
        \<lparr>Cast_Member = ''A'', Shooting_Date = 19732, Period_Name = Some ''P1'',
         Shooting_Location = Some ''Away'', Home_Location = ''Local'', Include = True\<rparr> \<and>
   \<not> requires_travel example_library
        \<lparr>Cast_Member = ''A'', Shooting_Date = 19732, Period_Name = None,
         Shooting_Location = None, Home_Location = ''Local'', Include = True\<rparr> \<and>
   (\<exists>st'.
      process_period example_library True ''Day Before Shooting'' ''Day After Shooting''
        ''A'' ''Local'' ''P1''
        (requires_travel example_library
           \<lparr>Cast_Member = ''A'', Shooting_Date = 19732, Period_Name = Some ''P1'',
            Shooting_Location = Some ''LOCAL'', Home_Location = ''Local'', Include = True\<rparr>)
        (0, [19732])
        \<lparr>total_accommodation = 0, total_travel = 0, results = [], export_data = [],
         calendar_data = []\<rparr> = Inr st' \<and>
      export_data st' = [] \<and>
      map Title (calendar_data st') = [''Shooting in P1''])"
  using
    requires_travel_iff [where lib = example_library
      and row = "\<lparr>Cast_Member = ''A'', Shooting_Date = 19732, Period_Name = Some ''P1'',
         Shooting_Location = Some ''LOCAL'', Home_Location = ''Local'', Include = True\<rparr>"
      and shooting_location = "''LOCAL''"
      and weekend_policy = True and arrival_option = "''Day Before Shooting''"
      and departure_option = "''Day After Shooting''" and name = "''A''"
      and home_location = "''Local''"
      and period_name = "''P1''" and period_number = 0 and shooting_dates = "[19732]"
      and st = "\<lparr>total_accommodation = 0, total_travel = 0, results = [], export_data = [],
         calendar_data = []\<rparr>"]
  by (simp add: requires_travel_def process_period_no_travel evaluation_defs)

section \<open>Dates outside every shooting period\<close>

lemma grouping_columns_missing:
  "Period_Name row = None \<Longrightarrow> (k, g) \<in> set (groupby grouping_columns df) \<Longrightarrow> row \<notin> set g"
  using groupby_member [of k g grouping_columns df row]
  by (auto simp add: grouping_columns_def)

lemmas pass_defs =
  apply_user_logic_def locate_def ensure_timestamp_def between_def with_requires_travel_def
  requires_travel_def groupby_def grouping_columns_def process_group_def periods_def
  new_period_def local_gaps_def process_period_def

text \<open>
  Claim C1. The claim says that a shooting date of an included cast member that matches
  no period definition is processed with \<^verbatim>\<open>requires_travel = False\<close> and still
  contributes to the summary and the calendar through the non-travel branch. The code
  does compute \<open>False\<close> for such a row, but the row has no \<^verbatim>\<open>'Period Name'\<close>, and
  \<^verbatim>\<open>groupby\<close> leaves a row with a missing key out of every group: the record reaches
  neither branch. Below, cast member A shoots on 10 January 2024, inside period P1, and
  on 18 March 2024, outside every period: the output holds one summary row for the group
  of P1 and one calendar event for 10 January, and nothing for 18 March.
\<close>

theorem unmatched_date_is_dropped:
  "locate example_library
     [''A'' \<mapsto> \<lparr>cs_include = True, cs_home_location = ''Local''\<rparr>]
     [\<lparr>Name = ''P1'', Location = ''Local'', Start_Date = Timestamp 19725,
       End_Date = Timestamp 19740\<rparr>]
     \<lparr>Cast_Member = ''A'', Shooting_Date = 19800\<rparr> =
     Inr \<lparr>Cast_Member = ''A'', Shooting_Date = 19800, Period_Name = None,
          Shooting_Location = None, Home_Location = ''Local'', Include = True\<rparr> \<and>
   requires_travel example_library
     \<lparr>Cast_Member = ''A'', Shooting_Date = 19800, Period_Name = None,
      Shooting_Location = None, Home_Location = ''Local'', Include = True\<rparr> = False \<and>
   apply_user_logic example_library
     [\<lparr>Cast_Member = ''A'', Shooting_Date = 19732\<rparr>,
      \<lparr>Cast_Member = ''A'', Shooting_Date = 19800\<rparr>]
     2 True ''Day Before Shooting'' ''Day After Shooting''
     [''A'' \<mapsto> \<lparr>cs_include = True, cs_home_location = ''Local''\<rparr>]
     [\<lparr>Name = ''P1'', Location = ''Local'', Start_Date = Timestamp 19725,
       End_Date = Timestamp 19740\<rparr>] =
     Inr ([\<lparr>S_Cast_Member = ''A'', S_Home_Location = ''Local'', Travel_Days = 0,
            Accommodation_Nights = 0, S_Requires_Travel = False\<rparr>],
          [],
          [\<lparr>C_Cast_Member = ''A'', Title = ''Shooting in P1'', Start = ''10.01.2024'',
            End = ''10.01.2024'', Description = ''Shooting day in P1'', C_Location = ''P1'',
            AllDay = ''TRUE''\<rparr>])"
  by (simp add: pass_defs evaluation_defs)

end
